theory Spec2Isabelle
  imports Complex_Main "HOL-Library.Multiset"
begin

section \<open>JavaScript numbers\<close>

text \<open>
  Every quantity of the program is a JavaScript number, an IEEE-754 double. The embedding
  keeps the special values of that type and leaves rounding out: a number is a real, one
  of the two infinities, or NaN. An operation on finite numbers returns the exact real
  result, unless that result lies beyond the largest double, in which case it overflows
  to an infinity; operations on infinities and NaN follow the IEEE rules. Three things
  are not modelled: the rounding of finite results to 53 bits (a relative error of about
  \<open>1e-16\<close> per operation), the loss of precision of results below the smallest normal
  double (about \<open>2.2e-308\<close>; below \<open>5e-324\<close> a result is zero), and the sign of zero
  (it is observable only through a division by zero, which the code modelled here never
  performs: it divides by the constants 2, 3, 6 and 180, and by a vector length guarded
  with \<open>|| 1\<close>). Where a statement below
  depends on the size of finite results (the trace of the tensor, the scaling with the
  magnitude), it is therefore made with a tolerance that the rounding errors of the
  running program stay well within, and for magnitudes at which the moment \<open>M0\<close> is a
  normal double.
\<close>

datatype jsnum = Fin real | PInf | NInf | NaN

definition MAX_VALUE :: real where
  "MAX_VALUE = (2 ^ 53 - 1) * 2 ^ 971"

definition overflow :: "real \<Rightarrow> jsnum" where
  "overflow r = (if MAX_VALUE < r then PInf else if r < - MAX_VALUE then NInf else Fin r)"

instantiation jsnum :: "{plus, minus, uminus, times, inverse}"
begin

fun uminus_jsnum :: "jsnum \<Rightarrow> jsnum" where
  "uminus_jsnum (Fin a) = Fin (- a)"
| "uminus_jsnum PInf = NInf"
| "uminus_jsnum NInf = PInf"
| "uminus_jsnum NaN = NaN"

fun plus_jsnum :: "jsnum \<Rightarrow> jsnum \<Rightarrow> jsnum" where
  "plus_jsnum (Fin a) (Fin b) = overflow (a + b)"
| "plus_jsnum NaN v = NaN"
| "plus_jsnum u NaN = NaN"
| "plus_jsnum PInf NInf = NaN"
| "plus_jsnum NInf PInf = NaN"
| "plus_jsnum PInf v = PInf"
| "plus_jsnum u PInf = PInf"
| "plus_jsnum NInf v = NInf"
| "plus_jsnum u NInf = NInf"

definition minus_jsnum :: "jsnum \<Rightarrow> jsnum \<Rightarrow> jsnum" where
  "minus_jsnum u v = u + (- v)"

fun times_jsnum :: "jsnum \<Rightarrow> jsnum \<Rightarrow> jsnum" where
  "times_jsnum (Fin a) (Fin b) = overflow (a * b)"
| "times_jsnum NaN v = NaN"
| "times_jsnum u NaN = NaN"
| "times_jsnum (Fin a) PInf = (if a = 0 then NaN else if 0 < a then PInf else NInf)"
| "times_jsnum (Fin a) NInf = (if a = 0 then NaN else if 0 < a then NInf else PInf)"
| "times_jsnum PInf (Fin b) = (if b = 0 then NaN else if 0 < b then PInf else NInf)"
| "times_jsnum NInf (Fin b) = (if b = 0 then NaN else if 0 < b then NInf else PInf)"
| "times_jsnum PInf PInf = PInf"
| "times_jsnum PInf NInf = NInf"
| "times_jsnum NInf PInf = NInf"
| "times_jsnum NInf NInf = PInf"

fun divide_jsnum :: "jsnum \<Rightarrow> jsnum \<Rightarrow> jsnum" where
  "divide_jsnum (Fin a) (Fin b) =
     (if b = 0 then (if a = 0 then NaN else if 0 < a then PInf else NInf)
      else overflow (a / b))"
| "divide_jsnum NaN v = NaN"
| "divide_jsnum u NaN = NaN"
| "divide_jsnum (Fin a) PInf = Fin 0"
| "divide_jsnum (Fin a) NInf = Fin 0"
| "divide_jsnum PInf (Fin b) = (if 0 \<le> b then PInf else NInf)"
| "divide_jsnum NInf (Fin b) = (if 0 \<le> b then NInf else PInf)"
| "divide_jsnum PInf PInf = NaN"
| "divide_jsnum PInf NInf = NaN"
| "divide_jsnum NInf PInf = NaN"
| "divide_jsnum NInf NInf = NaN"

definition inverse_jsnum :: "jsnum \<Rightarrow> jsnum" where
  "inverse_jsnum u = divide (Fin 1) u"

instance ..

end

text \<open>The operators \<open><\<close> and \<open><=\<close> (false as soon as one side is NaN), the
  remainder \<open>%\<close> (exact, with the sign of the dividend), and \<open>||\<close> on numbers
  (0 and NaN are falsy).\<close>

fun js_lt :: "jsnum \<Rightarrow> jsnum \<Rightarrow> bool" where
  "js_lt NaN v = False"
| "js_lt u NaN = False"
| "js_lt (Fin a) (Fin b) = (a < b)"
| "js_lt u NInf = False"
| "js_lt NInf v = True"
| "js_lt PInf v = False"
| "js_lt u PInf = True"

fun js_le :: "jsnum \<Rightarrow> jsnum \<Rightarrow> bool" where
  "js_le NaN v = False"
| "js_le u NaN = False"
| "js_le u v = (u = v \<or> js_lt u v)"

fun js_mod :: "jsnum \<Rightarrow> jsnum \<Rightarrow> jsnum" where
  "js_mod (Fin n) (Fin d) =
     (if d = 0 then NaN
      else Fin (n - d * of_int (if 0 \<le> n / d then \<lfloor>n / d\<rfloor> else \<lceil>n / d\<rceil>)))"
| "js_mod (Fin n) PInf = Fin n"
| "js_mod (Fin n) NInf = Fin n"
| "js_mod u v = NaN"

definition js_or :: "jsnum \<Rightarrow> jsnum \<Rightarrow> jsnum" where
  "js_or u v = (if u = Fin 0 \<or> u = NaN then v else u)"

text \<open>Reading \<open>xs[i]\<close> where a number is expected: an index past the end gives
  \<open>undefined\<close>, which every arithmetic operator converts to NaN.\<close>

definition at_index :: "jsnum list \<Rightarrow> nat \<Rightarrow> jsnum" where
  "at_index xs i = (if i < length xs then xs ! i else NaN)"

subsection \<open>The Math object\<close>

text \<open>\<open>Math.PI\<close> is the double nearest to \<open>\<pi>\<close>, \<open>884279719003555 / 2 ^ 48\<close>, which is
  \<open>3.141592653589793116\<close> to nineteen digits: less than \<open>\<pi>\<close> by \<open>1.2e-16\<close>.\<close>

definition PI_double :: real where
  "PI_double = 884279719003555 / 2 ^ 48"

definition Math_PI :: jsnum where
  "Math_PI = Fin PI_double"

text \<open>The functions of \<open>Math\<close> return the exact value at a finite argument; the running
  program returns a double next to that value (the standard leaves their accuracy to the
  implementation).\<close>

fun Math_sin :: "jsnum \<Rightarrow> jsnum" where
  "Math_sin (Fin a) = Fin (sin a)"
| "Math_sin u = NaN"

fun Math_cos :: "jsnum \<Rightarrow> jsnum" where
  "Math_cos (Fin a) = Fin (cos a)"
| "Math_cos u = NaN"

text \<open>At an odd multiple of \<open>\<pi>/2\<close> the function \<^const>\<open>tan\<close> of HOL is 0. No double is
  such a multiple: \<open>Math.tan\<close> of a double is a finite double, below about \<open>1e19\<close> in
  absolute value; at \<open>Math.PI / 2\<close> it is about \<open>1.6e16\<close>.\<close>

fun Math_tan :: "jsnum \<Rightarrow> jsnum" where
  "Math_tan (Fin a) = overflow (tan a)"
| "Math_tan u = NaN"

fun Math_acos :: "jsnum \<Rightarrow> jsnum" where
  "Math_acos (Fin a) = (if - 1 \<le> a \<and> a \<le> 1 then Fin (arccos a) else NaN)"
| "Math_acos u = NaN"

fun Math_sqrt :: "jsnum \<Rightarrow> jsnum" where
  "Math_sqrt (Fin a) = (if a < 0 then NaN else Fin (sqrt a))"
| "Math_sqrt PInf = PInf"
| "Math_sqrt u = NaN"


definition odd_integer :: "real \<Rightarrow> bool" where
  "odd_integer e = (of_int \<lfloor>e\<rfloor> = e \<and> odd \<lfloor>e\<rfloor>)"

text \<open>\<open>Math.pow(base, exponent)\<close>, by the cases of the language standard.\<close>

fun Math_pow :: "jsnum \<Rightarrow> jsnum \<Rightarrow> jsnum" where
  "Math_pow b NaN = NaN"
| "Math_pow b (Fin e) =
     (if e = 0 then Fin 1
      else case b of
        NaN \<Rightarrow> NaN
      | PInf \<Rightarrow> if 0 < e then PInf else Fin 0
      | NInf \<Rightarrow> if 0 < e then (if odd_integer e then NInf else PInf) else Fin 0
      | Fin a \<Rightarrow>
          if a = 0 then (if 0 < e then Fin 0 else PInf)
          else if 0 < a then overflow (a powr e)
          else if of_int \<lfloor>e\<rfloor> = e
            then overflow ((if odd \<lfloor>e\<rfloor> then - 1 else 1) * (\<bar>a\<bar> powr e))
          else NaN)"
| "Math_pow b PInf =
     (case b of
        NaN \<Rightarrow> NaN
      | Fin a \<Rightarrow> if 1 < \<bar>a\<bar> then PInf else if \<bar>a\<bar> = 1 then NaN else Fin 0
      | _ \<Rightarrow> PInf)"
| "Math_pow b NInf =
     (case b of
        NaN \<Rightarrow> NaN
      | Fin a \<Rightarrow> if 1 < \<bar>a\<bar> then Fin 0 else if \<bar>a\<bar> = 1 then NaN else PInf
      | _ \<Rightarrow> Fin 0)"

section \<open>src/data/tensors.js\<close>

record MomentTensor =
  Mrr :: jsnum
  Mtt :: jsnum
  Mpp :: jsnum
  Mrp :: jsnum
  Mtp :: jsnum
  Mrt :: jsnum

definition deg2rad :: "jsnum \<Rightarrow> jsnum" where
  "deg2rad deg = (deg * Math_PI) / Fin 180"

text \<open>Line 11: the scalar seismic moment.\<close>

definition seismicMoment :: "jsnum \<Rightarrow> jsnum" where
  "seismicMoment magnitudeMw = Math_pow (Fin 10) (Fin 1.5 * magnitudeMw + Fin 9.1)"

definition strikeDipRakeToMomentTensor ::
  "jsnum \<Rightarrow> jsnum \<Rightarrow> jsnum \<Rightarrow> jsnum \<Rightarrow> MomentTensor" where
  "strikeDipRakeToMomentTensor strike0 dip0 rake0 magnitudeMw =
     (let strike = deg2rad strike0;
          dip = deg2rad dip0;
          rake = deg2rad rake0;
          M0 = seismicMoment magnitudeMw
      in \<lparr>Mrr =
            (- M0) *
            (Math_sin dip * Math_cos rake * Math_sin (Fin 2 * strike) +
             Math_sin (Fin 2 * dip) * Math_sin rake * Math_sin strike * Math_sin strike),
          Mtt =
            M0 *
            (Math_sin dip * Math_cos rake * Math_sin (Fin 2 * strike) -
             Math_sin (Fin 2 * dip) * Math_sin rake * Math_cos strike * Math_cos strike),
          Mpp = M0 * Math_sin (Fin 2 * dip) * Math_sin rake,
          Mrp =
            (- M0) *
            (Math_cos dip * Math_cos rake * Math_cos strike +
             Math_cos (Fin 2 * dip) * Math_sin rake * Math_sin strike),
          Mtp =
            (- M0) *
            (Math_cos dip * Math_cos rake * Math_sin strike -
             Math_cos (Fin 2 * dip) * Math_sin rake * Math_cos strike),
          Mrt =
            (- M0) *
            (Math_sin dip * Math_cos rake * Math_cos (Fin 2 * strike) +
             Fin 0.5 * Math_sin (Fin 2 * dip) * Math_sin rake * Math_sin (Fin 2 * strike))\<rparr>)"

section \<open>src/components/SeismicPlot.jsx\<close>

record Inputs =
  strike :: jsnum
  dip :: jsnum
  rake :: jsnum
  magnitude :: jsnum
  azimuth :: jsnum

record Waveforms =
  Z :: "jsnum list"
  R :: "jsnum list"
  T :: "jsnum list"

datatype error = TypeError

text \<open>
  The Green's-function store, as \<open>generateWaveforms\<close> sees it. For a channel name, the
  two awaited calls \<open>fetch\<close> and \<open>res.json()\<close> have one of three outcomes: one of them
  throws (the request fails, or the body is not JSON); or they yield a record without a
  \<open>data\<close> field, so that \<open>json.data\<close> is \<open>undefined\<close> (\<open>Resolved None\<close>: the code looks
  neither at \<open>res.ok\<close> nor at the record, so this is what a JSON error body gives); or
  they yield a record whose \<open>data\<close> field is an array of numbers (\<open>Resolved (Some data)\<close>).
\<close>

datatype fetched = Throws | Resolved "jsnum list option"

type_synonym GreensStore = "string \<Rightarrow> fetched"

definition channelMap :: "string list list" where
  "channelMap =
     [[''ZSS'', ''ZDD'', ''ZEP'', ''ZDS''],
      [''RSS'', ''RDD'', ''REP'', ''RDS''],
      [''TSS'', ''TDS'']]"

text \<open>Lines 40-49: one channel of the preload loop, with its \<open>try\<close>/\<open>catch\<close>. The object
  \<open>greensData\<close> is a map from channel names to arrays; \<open>None\<close> is \<open>undefined\<close>, whether the
  key is absent or was assigned \<open>undefined\<close>.\<close>

definition preloadChannel ::
  "GreensStore \<Rightarrow> (string \<rightharpoonup> jsnum list) \<Rightarrow> string \<Rightarrow> (string \<rightharpoonup> jsnum list)" where
  "preloadChannel fetch greensData ch =
     (case greensData ch of
        None \<Rightarrow>
          (case fetch ch of
             Resolved json_data \<Rightarrow> greensData(ch := json_data)
           | Throws \<Rightarrow> greensData(ch \<mapsto> replicate 15520 (Fin 0)))
      | Some present \<Rightarrow> greensData)"

definition preload :: "GreensStore \<Rightarrow> (string \<rightharpoonup> jsnum list)" where
  "preload fetch = foldl (foldl (preloadChannel fetch)) Map.empty channelMap"

text \<open>\<open>Array.prototype.map\<close> with a callback that may throw.\<close>

fun mapM :: "('a \<Rightarrow> error + 'b) \<Rightarrow> 'a list \<Rightarrow> error + 'b list" where
  "mapM f [] = Inr []"
| "mapM f (a # as) =
     (case f a of
        Inl e \<Rightarrow> Inl e
      | Inr b \<Rightarrow> (case mapM f as of Inl e \<Rightarrow> Inl e | Inr bs \<Rightarrow> Inr (b # bs)))"

text \<open>Lines 57-69: the callback of the vertical channel. Indexing \<open>greensData[ch]\<close> when
  it is \<open>undefined\<close> throws a TypeError, and so does the call of \<open>map\<close> on it; both are
  outside the \<open>try\<close> block.\<close>

definition verticalZ_sample ::
  "MomentTensor \<Rightarrow> jsnum \<Rightarrow> (string \<rightharpoonup> jsnum list) \<Rightarrow> nat \<Rightarrow> error + jsnum" where
  "verticalZ_sample mt az greensData i =
     (case (greensData ''ZSS'', greensData ''ZDD'', greensData ''ZEP'', greensData ''ZDS'') of
        (Some ZSS, Some ZDD, Some ZEP, Some ZDS) \<Rightarrow>
          Inr (Mtt mt *
                 ((at_index ZSS i / Fin 2) * Math_cos (Fin 2 * az) -
                  at_index ZDD i / Fin 6 +
                  at_index ZEP i / Fin 3) +
               Mpp mt *
                 ((- at_index ZSS i / Fin 2) * Math_cos (Fin 2 * az) -
                  at_index ZDD i / Fin 6 +
                  at_index ZEP i / Fin 3) +
               Mrr mt * (at_index ZDD i / Fin 3 + at_index ZEP i / Fin 3) +
               Mtp mt * (at_index ZSS i * Math_sin (Fin 2 * az)) +
               Mrt mt * (at_index ZDS i * Math_cos az) +
               Mrp mt * (at_index ZDS i * Math_sin az))
      | _ \<Rightarrow> Inl TypeError)"

definition verticalZ ::
  "MomentTensor \<Rightarrow> jsnum \<Rightarrow> (string \<rightharpoonup> jsnum list) \<Rightarrow> error + jsnum list" where
  "verticalZ mt az greensData =
     (case greensData ''ZSS'' of
        None \<Rightarrow> Inl TypeError
      | Some ZSS \<Rightarrow>
          (case mapM (verticalZ_sample mt az greensData) [0..<length ZSS] of
             Inl e \<Rightarrow> Inl e
           | Inr Zs \<Rightarrow> Inr (take 4000 Zs)))"

definition radialR_sample ::
  "MomentTensor \<Rightarrow> jsnum \<Rightarrow> (string \<rightharpoonup> jsnum list) \<Rightarrow> nat \<Rightarrow> error + jsnum" where
  "radialR_sample mt az greensData i =
     (case (greensData ''RSS'', greensData ''RDD'', greensData ''REP'', greensData ''RDS'') of
        (Some RSS, Some RDD, Some REP, Some RDS) \<Rightarrow>
          Inr (Mtt mt *
                 ((at_index RSS i / Fin 2) * Math_cos (Fin 2 * az) -
                  at_index RDD i / Fin 6 +
                  at_index REP i / Fin 3) +
               Mpp mt *
                 ((- at_index RSS i / Fin 2) * Math_cos (Fin 2 * az) -
                  at_index RDD i / Fin 6 +
                  at_index REP i / Fin 3) +
               Mrr mt * (at_index RDD i / Fin 3 + at_index REP i / Fin 3) +
               Mtp mt * (at_index RSS i * Math_sin (Fin 2 * az)) +
               Mrt mt * (at_index RDS i * Math_cos az) +
               Mrp mt * (at_index RDS i * Math_sin az))
      | _ \<Rightarrow> Inl TypeError)"

definition radialR ::
  "MomentTensor \<Rightarrow> jsnum \<Rightarrow> (string \<rightharpoonup> jsnum list) \<Rightarrow> error + jsnum list" where
  "radialR mt az greensData =
     (case greensData ''RSS'' of
        None \<Rightarrow> Inl TypeError
      | Some RSS \<Rightarrow>
          (case mapM (radialR_sample mt az greensData) [0..<length RSS] of
             Inl e \<Rightarrow> Inl e
           | Inr Rs \<Rightarrow> Inr (take 4000 Rs)))"

definition transverseT_sample ::
  "MomentTensor \<Rightarrow> jsnum \<Rightarrow> (string \<rightharpoonup> jsnum list) \<Rightarrow> nat \<Rightarrow> error + jsnum" where
  "transverseT_sample mt az greensData i =
     (case (greensData ''TSS'', greensData ''TDS'') of
        (Some TSS, Some TDS) \<Rightarrow>
          Inr (Mtt mt * ((at_index TSS i / Fin 2) * Math_sin (Fin 2 * az)) -
               Mpp mt * ((at_index TSS i / Fin 2) * Math_sin (Fin 2 * az)) -
               Mtp mt * (at_index TSS i * Math_cos (Fin 2 * az)) +
               Mrt mt * (at_index TDS i * Math_sin az) -
               Mrp mt * (at_index TDS i * Math_cos az))
      | _ \<Rightarrow> Inl TypeError)"

definition transverseT ::
  "MomentTensor \<Rightarrow> jsnum \<Rightarrow> (string \<rightharpoonup> jsnum list) \<Rightarrow> error + jsnum list" where
  "transverseT mt az greensData =
     (case greensData ''TSS'' of
        None \<Rightarrow> Inl TypeError
      | Some TSS \<Rightarrow>
          (case mapM (transverseT_sample mt az greensData) [0..<length TSS] of
             Inl e \<Rightarrow> Inl e
           | Inr Ts \<Rightarrow> Inr (take 4000 Ts)))"

text \<open>Lines 21-110. The result is the object handed to \<open>setWaveforms\<close>; \<open>Inl\<close> is an
  exception leaving the function (a rejected promise).\<close>

definition generateWaveforms :: "Inputs \<Rightarrow> GreensStore \<Rightarrow> error + Waveforms" where
  "generateWaveforms inputs fetch =
     (let mt = strikeDipRakeToMomentTensor
                 (strike inputs) (dip inputs) (rake inputs) (magnitude inputs);
          az = (azimuth inputs * Math_PI) / Fin 180;
          greensData = preload fetch
      in case verticalZ mt az greensData of
           Inl e \<Rightarrow> Inl e
         | Inr Zs \<Rightarrow>
             (case radialR mt az greensData of
                Inl e \<Rightarrow> Inl e
              | Inr Rs \<Rightarrow>
                  (case transverseT mt az greensData of
                     Inl e \<Rightarrow> Inl e
                   | Inr Ts \<Rightarrow> Inr \<lparr>Z = Zs, R = Rs, T = Ts\<rparr>)))"

text \<open>The two formulas as the specification words them, for one sample: \<open>ss\<close>, \<open>dd\<close>,
  \<open>ep\<close>, \<open>ds\<close> are the values of the channel's basis traces at the sample index.\<close>

definition spec_ZR_sample ::
  "MomentTensor \<Rightarrow> jsnum \<Rightarrow> jsnum \<Rightarrow> jsnum \<Rightarrow> jsnum \<Rightarrow> jsnum \<Rightarrow> jsnum" where
  "spec_ZR_sample M az ss dd ep ds =
     Mtt M * (ss / Fin 2 * Math_cos (Fin 2 * az) - dd / Fin 6 + ep / Fin 3) +
     Mpp M * (- ss / Fin 2 * Math_cos (Fin 2 * az) - dd / Fin 6 + ep / Fin 3) +
     Mrr M * (dd / Fin 3 + ep / Fin 3) +
     Mtp M * (ss * Math_sin (Fin 2 * az)) +
     Mrt M * (ds * Math_cos az) +
     Mrp M * (ds * Math_sin az)"

definition spec_T_sample :: "MomentTensor \<Rightarrow> jsnum \<Rightarrow> jsnum \<Rightarrow> jsnum \<Rightarrow> jsnum" where
  "spec_T_sample M az ss ds =
     Mtt M * (ss / Fin 2 * Math_sin (Fin 2 * az)) -
     Mpp M * (ss / Fin 2 * Math_sin (Fin 2 * az)) -
     Mtp M * (ss * Math_cos (Fin 2 * az)) +
     Mrt M * (ds * Math_sin az) -
     Mrp M * (ds * Math_cos az)"

section \<open>src/components/SeismicSimulator.jsx\<close>

text \<open>Lines 103-189: the \<open>generateWaveforms\<close> of the component \<open>SeismicDashboard\<close>,
  translated on its own from that file.\<close>

definition Dashboard_channelMap :: "string list list" where
  "Dashboard_channelMap =
     [[''ZSS'', ''ZDD'', ''ZEP'', ''ZDS''],
      [''RSS'', ''RDD'', ''REP'', ''RDS''],
      [''TSS'', ''TDS'']]"

definition Dashboard_preloadChannel ::
  "GreensStore \<Rightarrow> (string \<rightharpoonup> jsnum list) \<Rightarrow> string \<Rightarrow> (string \<rightharpoonup> jsnum list)" where
  "Dashboard_preloadChannel fetch greensData ch =
     (case greensData ch of
        None \<Rightarrow>
          (case fetch ch of
             Resolved json_data \<Rightarrow> greensData(ch := json_data)
           | Throws \<Rightarrow> greensData(ch \<mapsto> replicate 15520 (Fin 0)))
      | Some present \<Rightarrow> greensData)"

definition Dashboard_preload :: "GreensStore \<Rightarrow> (string \<rightharpoonup> jsnum list)" where
  "Dashboard_preload fetch =
     foldl (foldl (Dashboard_preloadChannel fetch)) Map.empty Dashboard_channelMap"

definition Dashboard_Z_sample ::
  "MomentTensor \<Rightarrow> jsnum \<Rightarrow> (string \<rightharpoonup> jsnum list) \<Rightarrow> nat \<Rightarrow> error + jsnum" where
  "Dashboard_Z_sample mt az greensData i =
     (case (greensData ''ZSS'', greensData ''ZDD'', greensData ''ZEP'', greensData ''ZDS'') of
        (Some ZSS, Some ZDD, Some ZEP, Some ZDS) \<Rightarrow>
          Inr (Mtt mt *
                 ((at_index ZSS i / Fin 2) * Math_cos (Fin 2 * az) -
                  at_index ZDD i / Fin 6 +
                  at_index ZEP i / Fin 3) +
               Mpp mt *
                 ((- at_index ZSS i / Fin 2) * Math_cos (Fin 2 * az) -
                  at_index ZDD i / Fin 6 +
                  at_index ZEP i / Fin 3) +
               Mrr mt * (at_index ZDD i / Fin 3 + at_index ZEP i / Fin 3) +
               Mtp mt * (at_index ZSS i * Math_sin (Fin 2 * az)) +
               Mrt mt * (at_index ZDS i * Math_cos az) +
               Mrp mt * (at_index ZDS i * Math_sin az))
      | _ \<Rightarrow> Inl TypeError)"

definition Dashboard_R_sample ::
  "MomentTensor \<Rightarrow> jsnum \<Rightarrow> (string \<rightharpoonup> jsnum list) \<Rightarrow> nat \<Rightarrow> error + jsnum" where
  "Dashboard_R_sample mt az greensData i =
     (case (greensData ''RSS'', greensData ''RDD'', greensData ''REP'', greensData ''RDS'') of
        (Some RSS, Some RDD, Some REP, Some RDS) \<Rightarrow>
          Inr (Mtt mt *
                 ((at_index RSS i / Fin 2) * Math_cos (Fin 2 * az) -
                  at_index RDD i / Fin 6 +
                  at_index REP i / Fin 3) +
               Mpp mt *
                 ((- at_index RSS i / Fin 2) * Math_cos (Fin 2 * az) -
                  at_index RDD i / Fin 6 +
                  at_index REP i / Fin 3) +
               Mrr mt * (at_index RDD i / Fin 3 + at_index REP i / Fin 3) +
               Mtp mt * (at_index RSS i * Math_sin (Fin 2 * az)) +
               Mrt mt * (at_index RDS i * Math_cos az) +
               Mrp mt * (at_index RDS i * Math_sin az))
      | _ \<Rightarrow> Inl TypeError)"

definition Dashboard_T_sample ::
  "MomentTensor \<Rightarrow> jsnum \<Rightarrow> (string \<rightharpoonup> jsnum list) \<Rightarrow> nat \<Rightarrow> error + jsnum" where
  "Dashboard_T_sample mt az greensData i =
     (case (greensData ''TSS'', greensData ''TDS'') of
        (Some TSS, Some TDS) \<Rightarrow>
          Inr (Mtt mt * ((at_index TSS i / Fin 2) * Math_sin (Fin 2 * az)) -
               Mpp mt * ((at_index TSS i / Fin 2) * Math_sin (Fin 2 * az)) -
               Mtp mt * (at_index TSS i * Math_cos (Fin 2 * az)) +
               Mrt mt * (at_index TDS i * Math_sin az) -
               Mrp mt * (at_index TDS i * Math_cos az))
      | _ \<Rightarrow> Inl TypeError)"

definition Dashboard_channel ::
  "(nat \<Rightarrow> error + jsnum) \<Rightarrow> jsnum list option \<Rightarrow> error + jsnum list" where
  "Dashboard_channel callback basis =
     (case basis of
        None \<Rightarrow> Inl TypeError
      | Some SS \<Rightarrow>
          (case mapM callback [0..<length SS] of
             Inl e \<Rightarrow> Inl e
           | Inr samples \<Rightarrow> Inr (take 4000 samples)))"

definition Dashboard_generateWaveforms :: "Inputs \<Rightarrow> GreensStore \<Rightarrow> error + Waveforms" where
  "Dashboard_generateWaveforms inputs fetch =
     (let mt = strikeDipRakeToMomentTensor
                 (strike inputs) (dip inputs) (rake inputs) (magnitude inputs);
          az = (azimuth inputs * Math_PI) / Fin 180;
          greensData = Dashboard_preload fetch
      in case Dashboard_channel (Dashboard_Z_sample mt az greensData) (greensData ''ZSS'') of
           Inl e \<Rightarrow> Inl e
         | Inr Zs \<Rightarrow>
             (case Dashboard_channel (Dashboard_R_sample mt az greensData) (greensData ''RSS'') of
                Inl e \<Rightarrow> Inl e
              | Inr Rs \<Rightarrow>
                  (case Dashboard_channel (Dashboard_T_sample mt az greensData)
                          (greensData ''TSS'') of
                     Inl e \<Rightarrow> Inl e
                   | Inr Ts \<Rightarrow> Inr \<lparr>Z = Zs, R = Rs, T = Ts\<rparr>)))"

section \<open>src/components/BeachBallDiagram.jsx\<close>

subsection \<open>Vectors of three.js\<close>

text \<open>The methods of \<open>THREE.Vector3\<close> the component calls, as three.js defines them:
  \<open>length\<close> is \<open>Math.sqrt(x*x + y*y + z*z)\<close>, \<open>normalize_vector\<close> is
  \<open>divideScalar(length() || 1)\<close>, \<open>divideScalar(s)\<close> is \<open>multiplyScalar(1 / s)\<close>, and
  \<open>MathUtils.degToRad(d)\<close> is \<open>d * DEG2RAD\<close> with \<open>DEG2RAD = Math.PI / 180\<close>.\<close>

datatype Vector3 = Vector3 (vec_x: jsnum) (vec_y: jsnum) (vec_z: jsnum)

definition vec_length :: "Vector3 \<Rightarrow> jsnum" where
  "vec_length v = Math_sqrt (vec_x v * vec_x v + vec_y v * vec_y v + vec_z v * vec_z v)"

definition multiplyScalar :: "Vector3 \<Rightarrow> jsnum \<Rightarrow> Vector3" where
  "multiplyScalar v s = Vector3 (vec_x v * s) (vec_y v * s) (vec_z v * s)"

definition divideScalar :: "Vector3 \<Rightarrow> jsnum \<Rightarrow> Vector3" where
  "divideScalar v s = multiplyScalar v (Fin 1 / s)"

definition normalize_vector :: "Vector3 \<Rightarrow> Vector3" where
  "normalize_vector v = divideScalar v (js_or (vec_length v) (Fin 1))"

definition negate :: "Vector3 \<Rightarrow> Vector3" where
  "negate v = Vector3 (- vec_x v) (- vec_y v) (- vec_z v)"

definition toArray :: "Vector3 \<Rightarrow> jsnum list" where
  "toArray v = [vec_x v, vec_y v, vec_z v]"

definition DEG2RAD :: jsnum where
  "DEG2RAD = Math_PI / Fin 180"

definition degToRad :: "jsnum \<Rightarrow> jsnum" where
  "degToRad degrees = degrees * DEG2RAD"

subsection \<open>Principal axes (lines 23-33)\<close>

text \<open>\<open>Array.prototype.sort\<close> with a comparator: the standard requires a stable sort,
  and for a consistent comparator the stable sorted arrangement is unique; it is computed
  here by insertion from the left. A comparator result that is negative puts the first
  argument first; zero and NaN leave the order as it is.\<close>

fun insert_by :: "('a \<Rightarrow> 'a \<Rightarrow> jsnum) \<Rightarrow> 'a \<Rightarrow> 'a list \<Rightarrow> 'a list" where
  "insert_by cmp a [] = [a]"
| "insert_by cmp a (b # bs) =
     (if js_lt (cmp a b) (Fin 0) then a # b # bs else b # insert_by cmp a bs)"

definition Array_sort :: "('a \<Rightarrow> 'a \<Rightarrow> jsnum) \<Rightarrow> 'a list \<Rightarrow> 'a list" where
  "Array_sort cmp as = foldl (\<lambda>sorted a. insert_by cmp a sorted) [] as"

record EigenPair =
  val :: jsnum
  vec :: "jsnum list"

text \<open>Lines 27-29. The arguments are the results of the eigen-solver of ml-matrix:
  \<open>eig.realEigenvalues\<close> and the rows of \<open>eig.eigenvectorMatrix\<close>.\<close>

definition eigenPairs :: "jsnum list \<Rightarrow> jsnum list list \<Rightarrow> EigenPair list" where
  "eigenPairs eigenvalues eigenvectors =
     map (\<lambda>(i, v). \<lparr>val = v, vec = map (\<lambda>row. at_index row i) eigenvectors\<rparr>)
       (List.enumerate 0 eigenvalues)"

definition sortedPairs :: "jsnum list \<Rightarrow> jsnum list list \<Rightarrow> EigenPair list" where
  "sortedPairs eigenvalues eigenvectors =
     Array_sort (\<lambda>a b. val a - val b) (eigenPairs eigenvalues eigenvectors)"

text \<open>Lines 31-33: the axes P, B, T, in this order; reading \<open>.vec\<close> of a missing entry
  of \<open>sorted\<close> throws.\<close>

definition principalAxes ::
  "jsnum list \<Rightarrow> jsnum list list \<Rightarrow> error + (jsnum list \<times> jsnum list \<times> jsnum list)" where
  "principalAxes eigenvalues eigenvectors =
     (case sortedPairs eigenvalues eigenvectors of
        p0 # p1 # p2 # rest \<Rightarrow> Inr (vec p0, vec p1, vec p2)
      | _ \<Rightarrow> Inl TypeError)"

subsection \<open>Radiation amplitude (lines 155-161 and 187-193)\<close>

definition generateShadedDots_u :: "MomentTensor \<Rightarrow> Vector3 \<Rightarrow> jsnum" where
  "generateShadedDots_u mt dir =
     Mrr mt * vec_x dir * vec_x dir +
     Mtt mt * vec_y dir * vec_y dir +
     Mpp mt * vec_z dir * vec_z dir +
     Fin 2 * Mrt mt * vec_x dir * vec_y dir +
     Fin 2 * Mrp mt * vec_x dir * vec_z dir +
     Fin 2 * Mtp mt * vec_y dir * vec_z dir"

definition generateRadiationLobe_u :: "MomentTensor \<Rightarrow> Vector3 \<Rightarrow> jsnum" where
  "generateRadiationLobe_u mt dir =
     Mrr mt * vec_x dir * vec_x dir +
     Mtt mt * vec_y dir * vec_y dir +
     Mpp mt * vec_z dir * vec_z dir +
     Fin 2 * Mrt mt * vec_x dir * vec_y dir +
     Fin 2 * Mrp mt * vec_x dir * vec_z dir +
     Fin 2 * Mtp mt * vec_y dir * vec_z dir"

subsection \<open>Nodal great circles (lines 206-230)\<close>

definition greatCirclePoint :: "jsnum \<Rightarrow> jsnum \<Rightarrow> nat \<Rightarrow> jsnum list" where
  "greatCirclePoint strike_rad dip_rad a =
     (let az = degToRad (Fin (real a));
          x = Math_cos az;
          y = Math_sin az;
          z = (- Math_tan dip_rad) * (x * Math_sin strike_rad - y * Math_cos strike_rad);
          p = normalize_vector (Vector3 x y z)
      in toArray p)"

definition generateNodalGreatCircles :: "jsnum \<Rightarrow> jsnum \<Rightarrow> jsnum \<Rightarrow> jsnum list list list" where
  "generateNodalGreatCircles strikeDeg dipDeg rakeDeg =
     (let strike_rad = degToRad strikeDeg;
          dip_rad = degToRad dipDeg;
          planes =
            [(strike_rad, dip_rad),
             (js_mod (strike_rad + Math_PI / Fin 2) (Fin 2 * Math_PI),
              Math_acos (Math_cos dip_rad * Math_cos (Math_PI / Fin 2)))]
      in map (\<lambda>(plane_strike, plane_dip). map (greatCirclePoint plane_strike plane_dip) [0..<361])
           planes)"

section \<open>Notions used in the statements\<close>

text \<open>A store given by the arrays it holds: the channel of an array resolves with it,
  and the retrieval of every other channel throws.\<close>

definition serving :: "(string \<rightharpoonup> jsnum list) \<Rightarrow> GreensStore" where
  "serving arrays ch =
     (case arrays ch of Some json_data \<Rightarrow> Resolved (Some json_data) | None \<Rightarrow> Throws)"

text \<open>The basis trace the synthesizer works with for a channel of such a store: the
  array held, or the zero-filled array of the \<open>catch\<close> branch.\<close>

definition basisTrace :: "(string \<rightharpoonup> jsnum list) \<Rightarrow> string \<Rightarrow> jsnum list" where
  "basisTrace arrays ch =
     (case arrays ch of Some json_data \<Rightarrow> json_data | None \<Rightarrow> replicate 15520 (Fin 0))"

text \<open>What the preload leaves in \<open>greensData\<close> for a channel, for any store.\<close>

definition loaded :: "GreensStore \<Rightarrow> string \<Rightarrow> jsnum list option" where
  "loaded fetch ch =
     (case fetch ch of
        Throws \<Rightarrow> Some (replicate 15520 (Fin 0))
      | Resolved json_data \<Rightarrow> json_data)"


text \<open>A bound for the inputs that keeps every intermediate result of the tensor
  construction within the range of the doubles.\<close>

definition LIMIT :: real where
  "LIMIT = 10 ^ 307"

fun isFinite :: "jsnum \<Rightarrow> bool" where
  "isFinite (Fin a) = True"
| "isFinite u = False"

definition finiteTensor :: "MomentTensor \<Rightarrow> bool" where
  "finiteTensor mt =
     (isFinite (Mrr mt) \<and> isFinite (Mtt mt) \<and> isFinite (Mpp mt) \<and>
      isFinite (Mrp mt) \<and> isFinite (Mtp mt) \<and> isFinite (Mrt mt))"

text \<open>The components of the double-couple tensor in exact arithmetic, for a moment \<open>\<mu>\<close>
  and angles in radians.\<close>

definition exact_Mrr :: "real \<Rightarrow> real \<Rightarrow> real \<Rightarrow> real \<Rightarrow> real" where
  "exact_Mrr \<mu> s d r =
     - (\<mu> * (sin d * cos r * sin (2 * s) + sin (2 * d) * sin r * sin s * sin s))"

definition exact_Mtt :: "real \<Rightarrow> real \<Rightarrow> real \<Rightarrow> real \<Rightarrow> real" where
  "exact_Mtt \<mu> s d r =
     \<mu> * (sin d * cos r * sin (2 * s) - sin (2 * d) * sin r * cos s * cos s)"

definition exact_Mpp :: "real \<Rightarrow> real \<Rightarrow> real \<Rightarrow> real \<Rightarrow> real" where
  "exact_Mpp \<mu> s d r = \<mu> * (sin (2 * d) * sin r)"

definition exact_Mrp :: "real \<Rightarrow> real \<Rightarrow> real \<Rightarrow> real \<Rightarrow> real" where
  "exact_Mrp \<mu> s d r = - (\<mu> * (cos d * cos r * cos s + cos (2 * d) * sin r * sin s))"

definition exact_Mtp :: "real \<Rightarrow> real \<Rightarrow> real \<Rightarrow> real \<Rightarrow> real" where
  "exact_Mtp \<mu> s d r = - (\<mu> * (cos d * cos r * sin s - cos (2 * d) * sin r * cos s))"

definition exact_Mrt :: "real \<Rightarrow> real \<Rightarrow> real \<Rightarrow> real \<Rightarrow> real" where
  "exact_Mrt \<mu> s d r =
     - (\<mu> * (sin d * cos r * cos (2 * s) + 1 / 2 * sin (2 * d) * sin r * sin (2 * s)))"

definition exactTensor :: "real \<Rightarrow> real \<Rightarrow> real \<Rightarrow> real \<Rightarrow> MomentTensor" where
  "exactTensor \<mu> s d r =
     \<lparr>Mrr = Fin (exact_Mrr \<mu> s d r), Mtt = Fin (exact_Mtt \<mu> s d r),
      Mpp = Fin (exact_Mpp \<mu> s d r), Mrp = Fin (exact_Mrp \<mu> s d r),
      Mtp = Fin (exact_Mtp \<mu> s d r), Mrt = Fin (exact_Mrt \<mu> s d r)\<rparr>"

definition bounded_by :: "real \<Rightarrow> real \<Rightarrow> bool" where
  "bounded_by B a \<longleftrightarrow> \<bar>a\<bar> \<le> B"







text \<open>The real a finite number stands for.\<close>

fun realValue :: "jsnum \<Rightarrow> real" where
  "realValue (Fin a) = a"
| "realValue u = 0"

text \<open>A bound for the slope \<open>tan(dip)\<close> of a nodal plane under which its square stays
  within the range of the doubles. \<open>Math.tan\<close> of a double is far below this bound.\<close>

definition SLOPE_LIMIT :: real where
  "SLOPE_LIMIT = 10 ^ 150"

section \<open>Waveform synthesis\<close>

lemma preloadChannel_eq:
  "preloadChannel fetch greensData ch =
     (if greensData ch = None then greensData(ch := loaded fetch ch) else greensData)"
  by (auto simp: preloadChannel_def loaded_def split: option.splits fetched.splits)

lemma preload_loaded:
  "preload fetch =
     Map.empty
      (''ZSS'' := loaded fetch ''ZSS'', ''ZDD'' := loaded fetch ''ZDD'',
       ''ZEP'' := loaded fetch ''ZEP'', ''ZDS'' := loaded fetch ''ZDS'',
       ''RSS'' := loaded fetch ''RSS'', ''RDD'' := loaded fetch ''RDD'',
       ''REP'' := loaded fetch ''REP'', ''RDS'' := loaded fetch ''RDS'',
       ''TSS'' := loaded fetch ''TSS'', ''TDS'' := loaded fetch ''TDS'')"
  by (simp add: preload_def channelMap_def preloadChannel_eq)


lemma loaded_serving: "loaded (serving arrays) ch = Some (basisTrace arrays ch)"
  by (simp add: loaded_def serving_def basisTrace_def split: option.splits)

lemma preload_eq:
  "preload (serving fetch) =
     [''ZSS'' \<mapsto> basisTrace fetch ''ZSS'', ''ZDD'' \<mapsto> basisTrace fetch ''ZDD'',
      ''ZEP'' \<mapsto> basisTrace fetch ''ZEP'', ''ZDS'' \<mapsto> basisTrace fetch ''ZDS'',
      ''RSS'' \<mapsto> basisTrace fetch ''RSS'', ''RDD'' \<mapsto> basisTrace fetch ''RDD'',
      ''REP'' \<mapsto> basisTrace fetch ''REP'', ''RDS'' \<mapsto> basisTrace fetch ''RDS'',
      ''TSS'' \<mapsto> basisTrace fetch ''TSS'', ''TDS'' \<mapsto> basisTrace fetch ''TDS'']"
  by (simp only: preload_loaded loaded_serving)

lemma mapM_Inr: "(\<And>a. a \<in> set as \<Longrightarrow> f a = Inr (g a)) \<Longrightarrow> mapM f as = Inr (map g as)"
  by (induction as) simp_all

lemma verticalZ_preload:
  "verticalZ mt az (preload (serving arrays)) =
     Inr (take 4000 (map (\<lambda>i. spec_ZR_sample mt az
            (at_index (basisTrace arrays ''ZSS'') i) (at_index (basisTrace arrays ''ZDD'') i)
            (at_index (basisTrace arrays ''ZEP'') i) (at_index (basisTrace arrays ''ZDS'') i))
        [0..<length (basisTrace arrays ''ZSS'')]))"
proof -
  have "mapM (verticalZ_sample mt az (preload (serving arrays))) [0..<length (basisTrace arrays ''ZSS'')] =
        Inr (map (\<lambda>i. spec_ZR_sample mt az
            (at_index (basisTrace arrays ''ZSS'') i) (at_index (basisTrace arrays ''ZDD'') i)
            (at_index (basisTrace arrays ''ZEP'') i) (at_index (basisTrace arrays ''ZDS'') i))
        [0..<length (basisTrace arrays ''ZSS'')])"
    by (rule mapM_Inr) (simp add: verticalZ_sample_def preload_eq spec_ZR_sample_def)
  then show ?thesis
    by (simp add: verticalZ_def preload_eq)
qed

lemma radialR_preload:
  "radialR mt az (preload (serving arrays)) =
     Inr (take 4000 (map (\<lambda>i. spec_ZR_sample mt az
            (at_index (basisTrace arrays ''RSS'') i) (at_index (basisTrace arrays ''RDD'') i)
            (at_index (basisTrace arrays ''REP'') i) (at_index (basisTrace arrays ''RDS'') i))
        [0..<length (basisTrace arrays ''RSS'')]))"
proof -
  have "mapM (radialR_sample mt az (preload (serving arrays))) [0..<length (basisTrace arrays ''RSS'')] =
        Inr (map (\<lambda>i. spec_ZR_sample mt az
            (at_index (basisTrace arrays ''RSS'') i) (at_index (basisTrace arrays ''RDD'') i)
            (at_index (basisTrace arrays ''REP'') i) (at_index (basisTrace arrays ''RDS'') i))
        [0..<length (basisTrace arrays ''RSS'')])"
    by (rule mapM_Inr) (simp add: radialR_sample_def preload_eq spec_ZR_sample_def)
  then show ?thesis
    by (simp add: radialR_def preload_eq)
qed

lemma transverseT_preload:
  "transverseT mt az (preload (serving arrays)) =
     Inr (take 4000 (map (\<lambda>i. spec_T_sample mt az
            (at_index (basisTrace arrays ''TSS'') i) (at_index (basisTrace arrays ''TDS'') i))
        [0..<length (basisTrace arrays ''TSS'')]))"
proof -
  have "mapM (transverseT_sample mt az (preload (serving arrays))) [0..<length (basisTrace arrays ''TSS'')] =
        Inr (map (\<lambda>i. spec_T_sample mt az
            (at_index (basisTrace arrays ''TSS'') i) (at_index (basisTrace arrays ''TDS'') i))
        [0..<length (basisTrace arrays ''TSS'')])"
    by (rule mapM_Inr) (simp add: transverseT_sample_def preload_eq spec_T_sample_def)
  then show ?thesis
    by (simp add: transverseT_def preload_eq)
qed

lemma generateWaveforms_returns:
  "generateWaveforms inputs (serving arrays) =
     (let mt = strikeDipRakeToMomentTensor
                 (strike inputs) (dip inputs) (rake inputs) (magnitude inputs);
          az = (azimuth inputs * Math_PI) / Fin 180
      in Inr \<lparr>Z = take 4000 (map (\<lambda>i. spec_ZR_sample mt az
                 (at_index (basisTrace arrays ''ZSS'') i) (at_index (basisTrace arrays ''ZDD'') i)
                 (at_index (basisTrace arrays ''ZEP'') i) (at_index (basisTrace arrays ''ZDS'') i))
                 [0..<length (basisTrace arrays ''ZSS'')]),
              R = take 4000 (map (\<lambda>i. spec_ZR_sample mt az
                 (at_index (basisTrace arrays ''RSS'') i) (at_index (basisTrace arrays ''RDD'') i)
                 (at_index (basisTrace arrays ''REP'') i) (at_index (basisTrace arrays ''RDS'') i))
                 [0..<length (basisTrace arrays ''RSS'')]),
              T = take 4000 (map (\<lambda>i. spec_T_sample mt az
                 (at_index (basisTrace arrays ''TSS'') i) (at_index (basisTrace arrays ''TDS'') i))
                 [0..<length (basisTrace arrays ''TSS'')])\<rparr>)"
  by (simp add: generateWaveforms_def Let_def verticalZ_preload radialR_preload
      transverseT_preload)

text \<open>
  C1. For every moment tensor, azimuth and store of arrays, the vertical and the radial
  trace are, sample by sample, the six-term combination of the specification over the
  channel's four basis traces (the same weights for both channels), and the transverse
  trace is the five-term combination over its two basis traces; the samples are those of
  the channel's SS trace, cut at 4000.
\<close>

theorem C1_sample_formulas:
  "verticalZ M az (preload (serving arrays)) =
     Inr (take 4000 (map (\<lambda>i. spec_ZR_sample M az
            (at_index (basisTrace arrays ''ZSS'') i) (at_index (basisTrace arrays ''ZDD'') i)
            (at_index (basisTrace arrays ''ZEP'') i) (at_index (basisTrace arrays ''ZDS'') i))
        [0..<length (basisTrace arrays ''ZSS'')])) \<and>
   radialR M az (preload (serving arrays)) =
     Inr (take 4000 (map (\<lambda>i. spec_ZR_sample M az
            (at_index (basisTrace arrays ''RSS'') i) (at_index (basisTrace arrays ''RDD'') i)
            (at_index (basisTrace arrays ''REP'') i) (at_index (basisTrace arrays ''RDS'') i))
        [0..<length (basisTrace arrays ''RSS'')])) \<and>
   transverseT M az (preload (serving arrays)) =
     Inr (take 4000 (map (\<lambda>i. spec_T_sample M az
            (at_index (basisTrace arrays ''TSS'') i) (at_index (basisTrace arrays ''TDS'') i))
        [0..<length (basisTrace arrays ''TSS'')]))"
  by (simp only: verticalZ_preload radialR_preload transverseT_preload simp_thms)

text \<open>
  C8 (as amended). For every store of arrays the synthesis returns, and each output trace
  has the length of its channel's SS basis trace cut at 4000: longer traces are truncated,
  shorter ones are returned at their own length. The other basis traces have no influence
  on the length.
\<close>

theorem C8_output_length:
  "\<exists>w. generateWaveforms inputs (serving arrays) = Inr w \<and>
       length (Z w) = min 4000 (length (basisTrace arrays ''ZSS'')) \<and>
       length (R w) = min 4000 (length (basisTrace arrays ''RSS'')) \<and>
       length (T w) = min 4000 (length (basisTrace arrays ''TSS''))"
  by (simp add: generateWaveforms_returns Let_def min.commute)

text \<open>The claim as stated fails: with a one-sample ZSS record the vertical trace has
  one sample, not 4000.\<close>

theorem C8_counterexample:
  "\<not> isl (generateWaveforms
            \<lparr>strike = Fin 30, dip = Fin 45, rake = Fin 60, magnitude = Fin 6, azimuth = Fin 45\<rparr>
            (serving [''ZSS'' \<mapsto> [Fin 1]])) \<and>
   length (Z (projr (generateWaveforms
            \<lparr>strike = Fin 30, dip = Fin 45, rake = Fin 60, magnitude = Fin 6, azimuth = Fin 45\<rparr>
            (serving [''ZSS'' \<mapsto> [Fin 1]])))) \<noteq> 4000"
proof -
  have "basisTrace [''ZSS'' \<mapsto> [Fin 1]] ''ZSS'' = [Fin 1]"
    by (simp add: basisTrace_def)
  then show ?thesis
    by (simp add: generateWaveforms_returns Let_def)
qed

text \<open>
  C10. For the same inputs and the same store, whatever the outcome of each retrieval,
  the \<open>generateWaveforms\<close> of SeismicSimulator.jsx returns what the one of SeismicPlot.jsx
  returns: the same three arrays, or the same exception.
\<close>

theorem C10_same_synthesis:
  "Dashboard_generateWaveforms inputs fetch = generateWaveforms inputs fetch"
proof -
  have "Dashboard_preloadChannel = preloadChannel"
    by (intro ext) (simp only: Dashboard_preloadChannel_def preloadChannel_def)
  then have p: "Dashboard_preload fetch = preload fetch"
    by (simp only: Dashboard_preload_def preload_def Dashboard_channelMap_def channelMap_def)
  have "Dashboard_Z_sample = verticalZ_sample"
    by (intro ext) (simp only: Dashboard_Z_sample_def verticalZ_sample_def)
  then have z: "Dashboard_channel (Dashboard_Z_sample mt az gd) (gd ''ZSS'') = verticalZ mt az gd"
    for mt az gd
    by (simp only: Dashboard_channel_def verticalZ_def)
  have "Dashboard_R_sample = radialR_sample"
    by (intro ext) (simp only: Dashboard_R_sample_def radialR_sample_def)
  then have r: "Dashboard_channel (Dashboard_R_sample mt az gd) (gd ''RSS'') = radialR mt az gd"
    for mt az gd
    by (simp only: Dashboard_channel_def radialR_def)
  have "Dashboard_T_sample = transverseT_sample"
    by (intro ext) (simp only: Dashboard_T_sample_def transverseT_sample_def)
  then have t: "Dashboard_channel (Dashboard_T_sample mt az gd) (gd ''TSS'') = transverseT mt az gd"
    for mt az gd
    by (simp only: Dashboard_channel_def transverseT_def)
  show ?thesis
    by (simp only: Dashboard_generateWaveforms_def generateWaveforms_def p z r t)
qed





section \<open>Arithmetic within the range of the doubles\<close>

lemma LIMIT_MAX: "4 * LIMIT \<le> MAX_VALUE"
  by (simp add: MAX_VALUE_def LIMIT_def)

lemma LIMIT_big: "1000 \<le> LIMIT"
  by (simp add: LIMIT_def)

lemma MAX_VALUE_pos: "0 < MAX_VALUE"
  by (simp add: MAX_VALUE_def)

lemma overflow_Fin: "\<bar>r\<bar> \<le> MAX_VALUE \<Longrightarrow> overflow r = Fin r"
  by (auto simp: overflow_def)

lemma overflow_0: "overflow 0 = Fin 0"
  using MAX_VALUE_pos by (simp add: overflow_def)

lemma overflow_minus: "overflow (- r) = - overflow r"
  using MAX_VALUE_pos by (auto simp: overflow_def)

lemma overflow_PInf: "MAX_VALUE < r \<Longrightarrow> overflow r = PInf"
  by (simp add: overflow_def)

lemma overflow_NInf: "r < - MAX_VALUE \<Longrightarrow> overflow r = NInf"
  using MAX_VALUE_pos by (simp add: overflow_def)

lemma bounded_by_trig: "bounded_by 1 (sin a)" "bounded_by 1 (cos a)"
  by (simp_all add: bounded_by_def)

lemma bounded_by_half: "bounded_by 1 (1 / 2)"
  by (simp add: bounded_by_def)

lemma bounded_by_mul1: "bounded_by 1 a \<Longrightarrow> bounded_by 1 b \<Longrightarrow> bounded_by 1 (a * b)"
  unfolding bounded_by_def abs_mult by (rule mult_le_one) simp_all

lemma bounded_by_add2: "bounded_by 1 a \<Longrightarrow> bounded_by 1 b \<Longrightarrow> bounded_by 2 (a + b)"
  and bounded_by_sub2: "bounded_by 1 a \<Longrightarrow> bounded_by 1 b \<Longrightarrow> bounded_by 2 (a - b)"
  unfolding bounded_by_def by linarith+

lemma bounded_by_1_2: "bounded_by 1 a \<Longrightarrow> bounded_by 2 a"
  unfolding bounded_by_def by linarith

lemma overflow_bounded2: "bounded_by 2 a \<Longrightarrow> overflow a = Fin a"
  unfolding bounded_by_def using LIMIT_MAX LIMIT_big by (intro overflow_Fin) linarith

lemma overflow_bounded1: "bounded_by 1 a \<Longrightarrow> overflow a = Fin a"
  by (simp add: overflow_bounded2 bounded_by_1_2)

lemma moment_times_bounded2:
  assumes "0 \<le> \<mu>" "\<mu> \<le> LIMIT" "bounded_by 2 b"
  shows "\<bar>\<mu> * b\<bar> \<le> 2 * LIMIT"
proof -
  have "\<bar>\<mu> * b\<bar> \<le> LIMIT * 2"
    unfolding abs_mult using assms by (intro mult_mono) (auto simp: bounded_by_def)
  then show ?thesis by simp
qed

lemma overflow_moment:
  assumes "0 \<le> \<mu>" "\<mu> \<le> LIMIT" "bounded_by 2 b"
  shows "overflow (\<mu> * b) = Fin (\<mu> * b)"
  using moment_times_bounded2[OF assms] LIMIT_MAX by (intro overflow_Fin) linarith

lemma overflow_moment1:
  assumes "0 \<le> \<mu>" "\<mu> \<le> LIMIT" "bounded_by 1 b"
  shows "overflow (\<mu> * b) = Fin (\<mu> * b)"
  using assms by (simp add: overflow_moment bounded_by_1_2)

lemma overflow_moment11:
  assumes "0 \<le> \<mu>" "\<mu> \<le> LIMIT" "bounded_by 1 a" "bounded_by 1 b"
  shows "overflow (\<mu> * a * b) = Fin (\<mu> * a * b)"
  using overflow_moment1[OF assms(1,2) bounded_by_mul1[OF assms(3,4)]] by (simp add: mult.assoc)

section \<open>The moment tensor\<close>

lemma PI_double_bounds: "0 < PI_double" "PI_double < 4"
  by (simp_all add: PI_double_def)

lemma deg2rad_Fin:
  assumes "\<bar>s\<bar> \<le> LIMIT"
  shows "deg2rad (Fin s) = Fin (s * PI_double / 180)"
    and "overflow (2 * (s * PI_double / 180)) = Fin (2 * (s * PI_double / 180))"
proof -
  have "\<bar>s * PI_double\<bar> \<le> LIMIT * 4"
    unfolding abs_mult using assms PI_double_bounds by (intro mult_mono) auto
  then have b: "\<bar>s * PI_double\<bar> \<le> MAX_VALUE" using LIMIT_MAX by linarith
  then have c: "\<bar>s * PI_double / 180\<bar> \<le> MAX_VALUE" by simp
  from b c show "deg2rad (Fin s) = Fin (s * PI_double / 180)"
    by (simp add: deg2rad_def Math_PI_def overflow_Fin del: times_divide_eq_right)
  have "\<bar>2 * (s * PI_double / 180)\<bar> = \<bar>s * PI_double\<bar> / 90" by (simp add: mult.commute)
  also have "\<dots> \<le> \<bar>s * PI_double\<bar>" by (simp add: divide_le_eq)
  finally have "\<bar>2 * (s * PI_double / 180)\<bar> \<le> \<bar>s * PI_double\<bar>" .
  with b show "overflow (2 * (s * PI_double / 180)) = Fin (2 * (s * PI_double / 180))"
    by (intro overflow_Fin) linarith
qed

lemma tensor_exact:
  assumes "\<bar>s\<bar> \<le> LIMIT" "\<bar>d\<bar> \<le> LIMIT" "\<bar>r\<bar> \<le> LIMIT"
    and "seismicMoment mw = Fin \<mu>" "0 \<le> \<mu>" "\<mu> \<le> LIMIT"
  shows "strikeDipRakeToMomentTensor (Fin s) (Fin d) (Fin r) mw =
         exactTensor \<mu> (s * PI_double / 180) (d * PI_double / 180) (r * PI_double / 180)"
  unfolding strikeDipRakeToMomentTensor_def exactTensor_def Let_def
    exact_Mrr_def exact_Mtt_def exact_Mpp_def exact_Mrp_def exact_Mtp_def exact_Mrt_def
  using assms(4-6)
  by (simp add: deg2rad_Fin[OF assms(1)] deg2rad_Fin[OF assms(2)] deg2rad_Fin[OF assms(3)]
      minus_jsnum_def overflow_minus overflow_moment overflow_moment1 overflow_moment11
      overflow_bounded1 overflow_bounded2 bounded_by_trig bounded_by_half bounded_by_mul1
      bounded_by_add2 bounded_by_sub2 mult.assoc
      del: times_divide_eq_right times_divide_eq_left)

lemma seismicMoment_exact:
  assumes "- MAX_VALUE \<le> 1.5 * m" "m \<le> 198"
  shows "seismicMoment (Fin m) = Fin (10 powr (1.5 * m + 9.1))"
    and "10 powr (1.5 * m + 9.1) \<le> LIMIT"
proof -
  let ?e = "1.5 * m + 9.1"
  have e: "?e \<le> 307" using assms by simp
  have "\<bar>1.5 * m\<bar> \<le> MAX_VALUE"
    using assms LIMIT_MAX LIMIT_big by (simp add: abs_le_iff)
  then have 1: "Fin 1.5 * Fin m = Fin (1.5 * m)"
    by (simp add: overflow_Fin)
  have "\<bar>?e\<bar> \<le> MAX_VALUE"
    using assms LIMIT_MAX LIMIT_big by (simp add: abs_le_iff)
  then have 2: "Fin (1.5 * m) + Fin 9.1 = Fin ?e"
    by (simp add: overflow_Fin)
  have "(10::real) powr ?e \<le> 10 powr 307"
    using e by (intro powr_mono) simp_all
  then show le: "10 powr ?e \<le> LIMIT" by (simp add: LIMIT_def)
  then have "\<bar>10 powr ?e\<bar> \<le> MAX_VALUE" using LIMIT_MAX LIMIT_big by simp
  then have 3: "overflow (10 powr ?e) = Fin (10 powr ?e)" by (rule overflow_Fin)
  show "seismicMoment (Fin m) = Fin (10 powr ?e)"
    unfolding seismicMoment_def 1 2 using 3 by (cases "?e = 0") simp_all
qed

lemma seismicMoment_finite:
  assumes "m \<le> 198"
  shows "\<exists>\<mu>. seismicMoment (Fin m) = Fin \<mu> \<and> 0 \<le> \<mu> \<and> \<mu> \<le> LIMIT"
proof (cases "1.5 * m < - MAX_VALUE")
  case True
  then have "Fin 1.5 * Fin m = NInf"
    by (simp add: overflow_NInf)
  then have "seismicMoment (Fin m) = Fin 0"
    by (simp add: seismicMoment_def)
  then show ?thesis using LIMIT_big by simp
next
  case False
  then show ?thesis
    using seismicMoment_exact[of m] assms by simp
qed

lemma seismicMoment_200: "seismicMoment (Fin 200) = PInf"
proof -
  have "(10::real) powr 309 \<le> 10 powr (1.5 * 200 + 9.1)"
    by (intro powr_mono) simp_all
  moreover have "MAX_VALUE < 10 powr 309"
    by (simp add: MAX_VALUE_def)
  ultimately have "MAX_VALUE < 10 powr (1.5 * 200 + 9.1)"
    by linarith
  then have "overflow (10 powr (1.5 * 200 + 9.1)) = PInf"
    by (rule overflow_PInf)
  moreover have "Fin 1.5 * Fin 200 + Fin 9.1 = Fin (1.5 * 200 + 9.1)"
    using LIMIT_MAX LIMIT_big by (simp add: overflow_Fin)
  ultimately show ?thesis
    by (simp add: seismicMoment_def)
qed

lemma deg2rad_0: "deg2rad (Fin 0) = Fin 0"
  using deg2rad_Fin(1)[of 0] LIMIT_big by simp

lemma Mrr_200: "Mrr (strikeDipRakeToMomentTensor (Fin 0) (Fin 0) (Fin 0) (Fin 200)) = NaN"
  by (simp add: strikeDipRakeToMomentTensor_def Let_def seismicMoment_200 deg2rad_0 overflow_0)

text \<open>
  C9 (as amended). For finite strike, dip and rake of absolute value at most \<open>10 ^ 307\<close>
  and a finite magnitude of at most 198, the six components of the tensor are finite
  numbers. (The function is pure arithmetic: it raises nothing.)
\<close>

theorem C9_finite_tensor:
  assumes "\<bar>s\<bar> \<le> LIMIT" "\<bar>d\<bar> \<le> LIMIT" "\<bar>r\<bar> \<le> LIMIT" "m \<le> 198"
  shows "finiteTensor (strikeDipRakeToMomentTensor (Fin s) (Fin d) (Fin r) (Fin m))"
proof -
  obtain \<mu> where "seismicMoment (Fin m) = Fin \<mu>" "0 \<le> \<mu>" "\<mu> \<le> LIMIT"
    using seismicMoment_finite[OF assms(4)] by blast
  then show ?thesis
    by (simp add: tensor_exact[OF assms(1-3)] exactTensor_def finiteTensor_def)
qed

theorem C9_finite_tensor_witness:
  "\<bar>30\<bar> \<le> LIMIT \<and> \<bar>45\<bar> \<le> LIMIT \<and> \<bar>60\<bar> \<le> LIMIT \<and> (6::real) \<le> 198 \<and>
   finiteTensor (strikeDipRakeToMomentTensor (Fin 30) (Fin 45) (Fin 60) (Fin 6))"
proof -
  have b: "\<bar>30\<bar> \<le> LIMIT" "\<bar>45\<bar> \<le> LIMIT" "\<bar>60\<bar> \<le> LIMIT"
    using LIMIT_big by simp_all
  have m: "(6::real) \<le> 198" by simp
  from C9_finite_tensor[OF b m] b m show ?thesis by simp
qed

text \<open>The claim as stated fails: at magnitude 200 the moment overflows to Infinity and
  \<open>Mrr\<close> is \<open>-Infinity * 0\<close>, which is NaN.\<close>

theorem C9_counterexample:
  "\<not> finiteTensor (strikeDipRakeToMomentTensor (Fin 0) (Fin 0) (Fin 0) (Fin 200))"
  by (simp add: finiteTensor_def Mrr_200)






section \<open>Exact evaluation of the sample formulas\<close>










lemma range_facts: "2 * LIMIT \<le> MAX_VALUE" "1 \<le> MAX_VALUE"
  by (simp_all add: LIMIT_def MAX_VALUE_def)



section \<open>Scaling with the magnitude\<close>





















section \<open>Radiation amplitude\<close>

lemma uminus_uminus_jsnum: "- (- u) = (u::jsnum)"
  by (cases u) simp_all

lemma times_uminus_right: "u * (- v) = - (u * v)" for u v :: jsnum
  by (cases u; cases v) (auto simp: overflow_minus)

lemma times_uminus_left: "(- u) * v = - (u * v)" for u v :: jsnum
  by (cases u; cases v) (auto simp: overflow_minus)

lemma quadratic_term_even: "c * (- u) * (- v) = c * u * v" for c u v :: jsnum
  by (simp only: times_uminus_right times_uminus_left uminus_uminus_jsnum)

text \<open>
  C4. For every moment tensor and every direction, the radiation amplitude evaluated at
  the negated direction is the same number as the amplitude evaluated at the direction
  itself, in both places where the component computes it.
\<close>

theorem C4_amplitude_even:
  "generateShadedDots_u mt (negate dir) = generateShadedDots_u mt dir \<and>
   generateRadiationLobe_u mt (negate dir) = generateRadiationLobe_u mt dir"
  by (simp only: generateShadedDots_u_def generateRadiationLobe_u_def negate_def
      Vector3.sel quadratic_term_even simp_thms)

section \<open>Sorting the eigen-pairs\<close>

lemma compare_finite:
  "js_lt (Fin a - Fin b) (Fin 0) \<longleftrightarrow> a < b"
  using MAX_VALUE_pos by (auto simp: minus_jsnum_def overflow_def)

lemma mset_insert_by: "mset (insert_by cmp a bs) = add_mset a (mset bs)"
  by (induction bs) simp_all

lemma mset_Array_sort: "mset (Array_sort cmp as) = mset as"
  unfolding Array_sort_def
  by (induction as rule: rev_induct) (simp_all add: mset_insert_by)

lemma set_Array_sort: "set (Array_sort cmp as) = set as"
  using mset_Array_sort[of cmp as] by (metis set_mset_mset)

lemma length_Array_sort: "length (Array_sort cmp as) = length as"
  using mset_Array_sort[of cmp as] by (metis size_mset)

text \<open>\<open>key\<close> reads the comparator: \<open>cmp a b\<close> is negative exactly when the key of \<open>a\<close>
  is below the key of \<open>b\<close>.\<close>

lemma sorted_insert_by:
  fixes key :: "'a \<Rightarrow> real"
  assumes "\<And>b. b \<in> set bs \<Longrightarrow> js_lt (cmp a b) (Fin 0) \<longleftrightarrow> key a < key b"
    and "sorted (map key bs)"
  shows "sorted (map key (insert_by cmp a bs))"
  using assms
proof (induction bs)
  case Nil
  then show ?case by simp
next
  case (Cons b bs)
  show ?case
  proof (cases "key a < key b")
    case True
    with Cons.prems show ?thesis by auto
  next
    case False
    have "sorted (map key (insert_by cmp a bs))"
      using Cons.prems by (intro Cons.IH) simp_all
    moreover have "set (insert_by cmp a bs) = insert a (set bs)"
      using mset_insert_by[of cmp a bs] by (metis set_mset_mset set_mset_add_mset_insert)
    ultimately show ?thesis
      using False Cons.prems by auto
  qed
qed

lemma stable_insert_by:
  fixes key :: "'a \<Rightarrow> real"
  assumes "\<And>b. b \<in> set bs \<Longrightarrow> js_lt (cmp a b) (Fin 0) \<longleftrightarrow> key a < key b"
    and "sorted (map key bs)"
  shows "filter (\<lambda>b. key b = k) (insert_by cmp a bs) =
         filter (\<lambda>b. key b = k) bs @ (if key a = k then [a] else [])"
  using assms
proof (induction bs)
  case Nil
  then show ?case by simp
next
  case (Cons b bs)
  show ?case
  proof (cases "key a < key b")
    case True
    have "key a < key c" if "c \<in> set (b # bs)" for c
      using that True Cons.prems(2) by auto
    then have "\<forall>c \<in> set (b # bs). key c \<noteq> key a"
      by fastforce
    then have "filter (\<lambda>c. key c = key a) (b # bs) = []"
      by (simp only: filter_empty_conv)
    with True Cons.prems(1) show ?thesis
      by (cases "key a = k") auto
  next
    case False
    have "filter (\<lambda>b. key b = k) (insert_by cmp a bs) =
          filter (\<lambda>b. key b = k) bs @ (if key a = k then [a] else [])"
      using Cons.prems by (intro Cons.IH) simp_all
    with False Cons.prems(1) show ?thesis by simp
  qed
qed

lemma Array_sort_snoc: "Array_sort cmp (as @ [a]) = insert_by cmp a (Array_sort cmp as)"
  by (simp add: Array_sort_def)

lemma Array_sort_sorted_stable:
  fixes key :: "'a \<Rightarrow> real"
  assumes "\<And>a b. a \<in> set as \<Longrightarrow> b \<in> set as \<Longrightarrow>
             js_lt (cmp a b) (Fin 0) \<longleftrightarrow> key a < key b"
  shows "sorted (map key (Array_sort cmp as)) \<and>
         filter (\<lambda>b. key b = k) (Array_sort cmp as) = filter (\<lambda>b. key b = k) as"
  using assms
proof (induction as rule: rev_induct)
  case Nil
  then show ?case by (simp add: Array_sort_def)
next
  case (snoc a as)
  have IH: "sorted (map key (Array_sort cmp as))"
    "filter (\<lambda>b. key b = k) (Array_sort cmp as) = filter (\<lambda>b. key b = k) as"
    using snoc.IH snoc.prems by simp_all
  have c: "js_lt (cmp a b) (Fin 0) \<longleftrightarrow> key a < key b" if "b \<in> set (Array_sort cmp as)" for b
    using that snoc.prems by (simp add: set_Array_sort)
  show ?case
    unfolding Array_sort_snoc
    using sorted_insert_by[of "Array_sort cmp as" cmp a key, OF c IH(1)]
      stable_insert_by[of "Array_sort cmp as" cmp a key k, OF c IH(1)] IH(2)
    by simp
qed

lemma val_eigenPairs: "map val (eigenPairs eigenvalues eigenvectors) = eigenvalues"
  by (simp add: eigenPairs_def comp_def case_prod_beta map_snd_enumerate)

lemma filter_val_key:
  assumes "\<forall>p \<in> set ps. isFinite (val p)"
  shows "filter (\<lambda>p. val p = k) ps =
         (if isFinite k then filter (\<lambda>p. realValue (val p) = realValue k) ps else [])"
proof (cases k)
  case (Fin \<kappa>)
  have "val p = Fin \<kappa> \<longleftrightarrow> realValue (val p) = \<kappa>" if "p \<in> set ps" for p
    using assms that by (cases "val p") auto
  then show ?thesis
    using Fin by (auto intro: filter_cong)
qed (use assms in \<open>auto simp: filter_empty_conv\<close>)

text \<open>
  C3. The eigen-solver returns three finite eigenvalues. After the sort, the entries of
  \<open>sorted\<close> are the eigen-pairs in ascending order of eigenvalue; the P axis is the
  vector of the first (smallest eigenvalue), the B axis of the second, the T axis of the
  third (largest); and pairs with equal eigenvalues keep the order in which the solver
  returned them.
\<close>

theorem C3_axes_sorted:
  assumes "length eigenvalues = 3" and "list_all isFinite eigenvalues"
  shows "\<exists>p0 p1 p2.
           sortedPairs eigenvalues eigenvectors = [p0, p1, p2] \<and>
           principalAxes eigenvalues eigenvectors = Inr (vec p0, vec p1, vec p2) \<and>
           mset [p0, p1, p2] = mset (eigenPairs eigenvalues eigenvectors) \<and>
           js_le (val p0) (val p1) \<and> js_le (val p1) (val p2) \<and>
           (\<forall>k. filter (\<lambda>p. val p = k) [p0, p1, p2] =
                filter (\<lambda>p. val p = k) (eigenPairs eigenvalues eigenvectors))"
proof -
  let ?ps = "eigenPairs eigenvalues eigenvectors"
  let ?cmp = "\<lambda>a b. val a - val b"
  let ?key = "\<lambda>p. realValue (val p)"
  have "list_all isFinite (map val ?ps)"
    using assms(2) by (simp only: val_eigenPairs)
  then have fin: "\<forall>p \<in> set ?ps. isFinite (val p)"
    by (simp add: list_all_iff)
  have cmp: "js_lt (?cmp a b) (Fin 0) \<longleftrightarrow> ?key a < ?key b"
    if "a \<in> set ?ps" "b \<in> set ?ps" for a b
  proof -
    have "isFinite (val a)" "isFinite (val b)"
      using fin that by blast+
    then obtain x y where "val a = Fin x" "val b = Fin y"
      by (cases "val a"; cases "val b") simp_all
    then show ?thesis
      by (simp only: compare_finite realValue.simps)
  qed
  have "length ?ps = length (map val ?ps)"
    by simp
  then have "length ?ps = 3"
    using assms(1) by (simp only: val_eigenPairs)
  then have len: "length (sortedPairs eigenvalues eigenvectors) = 3"
    by (simp only: sortedPairs_def length_Array_sort)
  then obtain p0 p1 p2 where s: "sortedPairs eigenvalues eigenvectors = [p0, p1, p2]"
    by (auto simp: length_Suc_conv eval_nat_numeral)
  have m: "mset [p0, p1, p2] = mset ?ps"
    using mset_Array_sort[of ?cmp ?ps] s by (simp add: sortedPairs_def)
  have set: "set [p0, p1, p2] = set ?ps"
    using set_Array_sort[of ?cmp ?ps] s by (simp only: sortedPairs_def)
  have srt: "sorted (map ?key [p0, p1, p2])"
    and stb: "filter (\<lambda>b. ?key b = \<kappa>) [p0, p1, p2] = filter (\<lambda>b. ?key b = \<kappa>) ?ps" for \<kappa>
    using Array_sort_sorted_stable[of ?ps ?cmp ?key \<kappa>, OF cmp] s
    by (simp_all add: sortedPairs_def)
  have fin': "\<forall>p \<in> set [p0, p1, p2]. isFinite (val p)"
    using fin set by blast
  have le: "js_le (val a) (val b)" if "isFinite (val a)" "isFinite (val b)" "?key a \<le> ?key b"
    for a b :: EigenPair
    using that by (cases "val a"; cases "val b") auto
  have ax: "principalAxes eigenvalues eigenvectors = Inr (vec p0, vec p1, vec p2)"
    by (simp add: principalAxes_def s)
  have o1: "js_le (val p0) (val p1)" and o2: "js_le (val p1) (val p2)"
    using srt fin' by (auto intro: le)
  have st: "filter (\<lambda>p. val p = k) [p0, p1, p2] = filter (\<lambda>p. val p = k) ?ps" for k
    unfolding filter_val_key[OF fin] filter_val_key[OF fin'] using stb by simp
  show ?thesis
    by (intro exI conjI allI) (rule s ax m o1 o2 st)+
qed

theorem C3_axes_sorted_witness:
  "length [Fin 2, Fin (- 1), Fin 2] = 3 \<and>
   list_all isFinite [Fin 2, Fin (- 1), Fin 2] \<and>
   (\<exists>p0 p1 p2.
      sortedPairs [Fin 2, Fin (- 1), Fin 2]
        [[Fin 1, Fin 0, Fin 0], [Fin 0, Fin 1, Fin 0], [Fin 0, Fin 0, Fin 1]] = [p0, p1, p2] \<and>
      principalAxes [Fin 2, Fin (- 1), Fin 2]
        [[Fin 1, Fin 0, Fin 0], [Fin 0, Fin 1, Fin 0], [Fin 0, Fin 0, Fin 1]] =
        Inr (vec p0, vec p1, vec p2) \<and>
      js_le (val p0) (val p1) \<and> js_le (val p1) (val p2))"
proof -
  have a: "length [Fin 2, Fin (- 1), Fin 2] = 3"
    by simp
  have b: "list_all isFinite [Fin 2, Fin (- 1), Fin 2]"
    by simp
  from C3_axes_sorted[OF a b,
      of "[[Fin 1, Fin 0, Fin 0], [Fin 0, Fin 1, Fin 0], [Fin 0, Fin 0, Fin 1]]"]
  show ?thesis
    using a b by blast
qed

section \<open>Nodal great circles\<close>

subsection \<open>The distance of \<open>Math.PI\<close> from \<open>\<pi>\<close>\<close>

text \<open>The partial sums of the series of the arc tangent enclose its value, and with the
  formula of Machin they enclose \<open>\<pi>\<close>.\<close>

lemma arctan_partial_sums:
  fixes x :: real
  assumes "0 \<le> x" "x \<le> 1"
  shows "(\<Sum>k<2 * n. (- 1) ^ k * (1 / real (k * 2 + 1) * x ^ (k * 2 + 1))) \<le> arctan x"
    and "arctan x \<le> (\<Sum>k<2 * n + 1. (- 1) ^ k * (1 / real (k * 2 + 1) * x ^ (k * 2 + 1)))"
proof -
  let ?a = "\<lambda>k. 1 / real (k * 2 + 1) * x ^ (k * 2 + 1)"
  have x: "\<bar>x\<bar> \<le> 1"
    using assms by simp
  have zero: "?a \<longlonglongrightarrow> 0"
    by (rule zeroseq_arctan_series[OF x])
  have nonneg: "0 \<le> ?a k" for k
    using assms by simp
  have decreasing: "?a (Suc k) \<le> ?a k" for k
  proof -
    have "x ^ (Suc k * 2 + 1) \<le> x ^ (k * 2 + 1)"
      using assms by (intro power_decreasing) simp_all
    moreover have "1 / real (Suc k * 2 + 1) \<le> 1 / real (k * 2 + 1)"
      by (simp add: field_simps)
    ultimately show ?thesis
      using assms by (intro mult_mono) simp_all
  qed
  have series: "arctan x = (\<Sum>k. (- 1) ^ k * ?a k)"
    by (rule arctan_series[OF x])
  show "(\<Sum>k<2 * n. (- 1) ^ k * ?a k) \<le> arctan x"
    unfolding series by (rule summable_Leibniz'(2)[OF zero nonneg decreasing])
  show "arctan x \<le> (\<Sum>k<2 * n + 1. (- 1) ^ k * ?a k)"
    unfolding series by (rule summable_Leibniz'(4)[OF zero nonneg decreasing])
qed

lemma pi_machin: "pi = 16 * arctan (1 / 5) - 4 * arctan (1 / 239)"
  using machin by simp

lemma pi_lower: "31415926535897932 / 10 ^ 16 \<le> pi"
  unfolding pi_machin
  using arctan_partial_sums(1)[of "1 / 5" 6] arctan_partial_sums(2)[of "1 / 239" 2]
  by (simp add: eval_nat_numeral)

lemma pi_upper: "pi \<le> 31416 / 10 ^ 4"
  unfolding pi_machin
  using arctan_partial_sums(2)[of "1 / 5" 2] arctan_partial_sums(1)[of "1 / 239" 1]
  by (simp add: eval_nat_numeral)

lemma PI_double_pi: "PI_double + 8 / 10 ^ 17 \<le> pi" "pi \<le> PI_double + 1 / 10 ^ 4"
  using pi_lower pi_upper by (simp_all add: PI_double_def)

text \<open>The cosine of \<open>Math.PI\<close> is \<open>- 1\<close> up to \<open>1e-8\<close>.\<close>

lemma cos_PI_double: "- 1 \<le> cos PI_double" "cos PI_double \<le> - (1 - 1 / 10 ^ 8)"
proof -
  define \<epsilon> where "\<epsilon> = pi - PI_double"
  have \<epsilon>: "0 \<le> \<epsilon>" "\<epsilon> \<le> 1 / 10 ^ 4"
    unfolding \<epsilon>_def using PI_double_pi by simp_all
  have "cos \<epsilon> = 1 - 2 * (sin (\<epsilon> / 2))\<^sup>2"
    using cos_double_sin[of "\<epsilon> / 2"] by simp
  moreover have "(sin (\<epsilon> / 2))\<^sup>2 \<le> (\<epsilon> / 2)\<^sup>2"
    using abs_sin_x_le_abs_x[of "\<epsilon> / 2"] by (simp only: abs_le_square_iff)
  moreover have "(\<epsilon> / 2)\<^sup>2 \<le> (1 / 10 ^ 4 / 2)\<^sup>2"
    using \<epsilon> by (intro power_mono) simp_all
  ultimately have "1 - 1 / 10 ^ 8 \<le> cos \<epsilon>"
    by (simp add: power2_eq_square)
  moreover have "cos PI_double = - cos \<epsilon>"
    unfolding \<epsilon>_def by simp
  ultimately show "cos PI_double \<le> - (1 - 1 / 10 ^ 8)"
    by simp
  show "- 1 \<le> cos PI_double"
    by simp
qed

text \<open>The sine of \<open>2 * Math.PI\<close> is negative: \<open>2 * Math.PI\<close> is less than \<open>2 * \<pi>\<close>.\<close>

lemma sin_2_PI_double: "sin (2 * PI_double) < 0"
proof (rule sin_lt_zero)
  show "pi < 2 * PI_double"
    using pi_upper by (simp add: PI_double_def)
  show "2 * PI_double < 2 * pi"
    using PI_double_pi(1) by simp
qed

text \<open>The tangent of \<open>Math.PI / 2\<close> is positive and finite.\<close>

lemma tan_half_PI_double: "0 < tan (PI_double / 2)" "tan (PI_double / 2) \<le> 10 ^ 17"
proof -
  let ?\<theta> = "PI_double / 2"
  have \<theta>: "0 < ?\<theta>" "?\<theta> < pi / 2"
    using PI_double_pi(1) by (simp_all add: PI_double_def)
  then show "0 < tan ?\<theta>"
    by (rule tan_gt_zero)
  have "arctan (1 / 10 ^ 17) \<le> 1 / 10 ^ 17"
    using arctan_partial_sums(2)[of "1 / 10 ^ 17" 0] by simp
  moreover have "arctan (1 / 10 ^ 17) = pi / 2 - arctan (10 ^ 17)"
    using arctan_inverse[of "10 ^ 17 :: real"] by simp
  ultimately have "pi / 2 - 1 / 10 ^ 17 \<le> arctan (10 ^ 17)"
    by simp
  moreover have "?\<theta> \<le> pi / 2 - 1 / 10 ^ 17"
    using PI_double_pi(1) by simp
  ultimately have "arctan (tan ?\<theta>) \<le> arctan (10 ^ 17)"
    using \<theta> by (simp add: arctan_tan)
  then show "tan ?\<theta> \<le> 10 ^ 17"
    by (simp only: arctan_le_iff)
qed

text \<open>The height \<open>tan(dip) * sin(az)\<close> of the last point of the circle of a vertical plane
  of strike 0, before the normalization: close to \<open>- 4\<close>, where it is 0 for the first
  point.\<close>

lemma last_height:
  "tan (PI_double / 2) * sin (2 * PI_double) = 2 * cos PI_double * (1 - cos PI_double)"
  "tan (PI_double / 2) * sin (2 * PI_double) \<le> - 3999 / 1000"
proof -
  let ?\<theta> = "PI_double / 2"
  define c where "c = cos PI_double"
  have "0 < cos ?\<theta>"
    using PI_double_pi(1) by (intro cos_gt_zero) (simp_all add: PI_double_def)
  then have nz: "cos ?\<theta> \<noteq> 0"
    by simp
  have 1: "sin (2 * PI_double) = 2 * sin PI_double * c"
    unfolding c_def by (rule sin_double)
  have 2: "sin PI_double = 2 * sin ?\<theta> * cos ?\<theta>"
    using sin_double[of ?\<theta>] by simp
  have 3: "c = 1 - 2 * (sin ?\<theta>)\<^sup>2"
    unfolding c_def using cos_double_sin[of ?\<theta>] by simp
  have "tan ?\<theta> * sin (2 * PI_double) = 4 * (sin ?\<theta>)\<^sup>2 * c"
    unfolding 1 2 tan_def using nz by (simp add: power2_eq_square)
  also have "\<dots> = 2 * (2 * (sin ?\<theta>)\<^sup>2) * c"
    by simp
  also have "2 * (sin ?\<theta>)\<^sup>2 = 1 - c"
    using 3 by simp
  also have "2 * (1 - c) * c = 2 * c * (1 - c)"
    by simp
  finally show eq: "tan ?\<theta> * sin (2 * PI_double) = 2 * cos PI_double * (1 - cos PI_double)"
    unfolding c_def .
  have c: "- 1 \<le> c" "c \<le> - (1 - 1 / 10 ^ 8)"
    unfolding c_def by (rule cos_PI_double)+
  have "(1 - 1 / 10 ^ 8) * (1 - 1 / 10 ^ 8) \<le> (- c) * (- c)"
    using c by (intro mult_mono) simp_all
  then have "2 * c * (1 - c) \<le> - 3999 / 1000"
    using c by (simp add: algebra_simps)
  then show "tan ?\<theta> * sin (2 * PI_double) \<le> - 3999 / 1000"
    unfolding eq c_def .
qed

subsection \<open>The points of a circle\<close>

lemma slope_facts:
  "0 \<le> SLOPE_LIMIT" "2 * SLOPE_LIMIT \<le> MAX_VALUE"
  "2 + 4 * (SLOPE_LIMIT * SLOPE_LIMIT) \<le> MAX_VALUE" "10 ^ 17 \<le> SLOPE_LIMIT"
  by (simp_all add: SLOPE_LIMIT_def MAX_VALUE_def)

lemma DEG2RAD_Fin: "DEG2RAD = Fin (PI_double / 180)"
proof -
  have "\<bar>PI_double / 180\<bar> \<le> 1"
    using PI_double_bounds by simp
  then have "\<bar>PI_double / 180\<bar> \<le> MAX_VALUE"
    using range_facts(2) by linarith
  then show ?thesis
    by (simp add: DEG2RAD_def Math_PI_def overflow_Fin)
qed

lemma degToRad_Fin:
  assumes "\<bar>s\<bar> \<le> MAX_VALUE"
  shows "degToRad (Fin s) = Fin (s * (PI_double / 180))"
proof -
  have "\<bar>PI_double / 180\<bar> \<le> 1"
    using PI_double_bounds by simp
  then have "\<bar>s\<bar> * \<bar>PI_double / 180\<bar> \<le> MAX_VALUE * 1"
    using assms by (intro mult_mono) simp_all
  then have "\<bar>s * (PI_double / 180)\<bar> \<le> MAX_VALUE"
    by (simp add: abs_mult)
  then show ?thesis
    by (simp add: degToRad_def DEG2RAD_Fin overflow_Fin del: times_divide_eq_right)
qed

lemma small_degrees: "a \<le> 360 \<Longrightarrow> \<bar>real a\<bar> \<le> MAX_VALUE"
  using LIMIT_MAX LIMIT_big by simp

text \<open>The point of azimuth \<open>a\<close> degrees on the circle of a plane of strike \<open>\<sigma>\<close> and dip
  \<open>\<delta>\<close> (in radians), as long as the slope of the plane is within \<open>SLOPE_LIMIT\<close>: the
  vector \<open>(cos az, sin az, z)\<close> divided by its length.\<close>

lemma greatCirclePoint_Fin:
  assumes "\<bar>tan \<delta>\<bar> \<le> SLOPE_LIMIT" and "a \<le> 360"
  shows "greatCirclePoint (Fin \<sigma>) (Fin \<delta>) a =
     (let az = real a * (PI_double / 180);
          z = - tan \<delta> * (cos az * sin \<sigma> - sin az * cos \<sigma>);
          L = sqrt (1 + z * z)
      in [Fin (cos az * (1 / L)), Fin (sin az * (1 / L)), Fin (z * (1 / L))])"
proof -
  define \<alpha> where "\<alpha> = real a * (PI_double / 180)"
  define cx where "cx = cos \<alpha>"
  define sy where "sy = sin \<alpha>"
  define w where "w = cx * sin \<sigma> - sy * cos \<sigma>"
  define z where "z = - tan \<delta> * w"
  define L where "L = sqrt (1 + z * z)"
  have az: "degToRad (Fin (real a)) = Fin \<alpha>"
    unfolding \<alpha>_def using small_degrees[OF assms(2)] by (rule degToRad_Fin)
  have unit: "cx * cx + sy * sy = 1"
    unfolding cx_def sy_def using sin_cos_squared_add2[of \<alpha>] by (simp add: power2_eq_square)
  have bw: "bounded_by 2 w"
    unfolding w_def cx_def sy_def by (intro bounded_by_sub2 bounded_by_mul1 bounded_by_trig)
  have w: "Fin cx * Fin (sin \<sigma>) - Fin sy * Fin (cos \<sigma>) = Fin w"
    unfolding w_def cx_def sy_def
    by (simp add: minus_jsnum_def overflow_bounded1 overflow_bounded2 bounded_by_trig
        bounded_by_mul1 bounded_by_sub2)
  have "\<bar>tan \<delta>\<bar> * \<bar>w\<bar> \<le> SLOPE_LIMIT * 2"
    using assms(1) bw by (intro mult_mono) (auto simp: bounded_by_def)
  then have bz: "\<bar>z\<bar> \<le> 2 * SLOPE_LIMIT"
    unfolding z_def by (simp add: abs_mult)
  have "\<bar>tan \<delta>\<bar> \<le> MAX_VALUE"
    using assms(1) slope_facts by linarith
  then have tn: "Math_tan (Fin \<delta>) = Fin (tan \<delta>)"
    by (simp add: overflow_Fin)
  have zM: "\<bar>z\<bar> \<le> MAX_VALUE"
    using bz slope_facts by linarith
  then have zz: "(- Math_tan (Fin \<delta>)) * Fin w = Fin z"
    unfolding tn z_def by (simp add: overflow_Fin)
  have "\<bar>z\<bar> * \<bar>z\<bar> \<le> (2 * SLOPE_LIMIT) * (2 * SLOPE_LIMIT)"
    using bz by (intro mult_mono) simp_all
  then have bzz: "z * z \<le> 4 * (SLOPE_LIMIT * SLOPE_LIMIT)"
    by (simp add: abs_mult[symmetric])
  have nn: "0 \<le> z * z"
    by simp
  have sq: "Fin cx * Fin cx + Fin sy * Fin sy + Fin z * Fin z = Fin (1 + z * z)"
  proof -
    have 1: "Fin cx * Fin cx = Fin (cx * cx)" "Fin sy * Fin sy = Fin (sy * sy)"
      unfolding cx_def sy_def by (simp_all add: overflow_bounded1 bounded_by_trig bounded_by_mul1)
    have 2: "Fin (cx * cx) + Fin (sy * sy) = Fin 1"
      using range_facts(2) by (simp add: unit overflow_Fin)
    have 3: "Fin z * Fin z = Fin (z * z)"
      using bzz nn slope_facts by (simp add: overflow_Fin)
    have 4: "Fin 1 + Fin (z * z) = Fin (1 + z * z)"
      using bzz nn slope_facts by (simp add: overflow_Fin)
    show ?thesis
      by (simp only: 1 2 3 4)
  qed
  have L1: "1 \<le> L"
    unfolding L_def using nn by simp
  have "\<not> 1 + z * z < 0"
    using nn by linarith
  then have len: "vec_length (Vector3 (Fin cx) (Fin sy) (Fin z)) = Fin L"
    unfolding vec_length_def Vector3.sel sq L_def by simp
  have i1: "\<bar>1 / L\<bar> \<le> 1"
    using L1 by simp
  then have "overflow (1 / L) = Fin (1 / L)"
    using range_facts(2) by (intro overflow_Fin) linarith
  then have inv: "Fin 1 / js_or (Fin L) (Fin 1) = Fin (1 / L)"
    using L1 by (simp add: js_or_def)
  have m: "Fin c * Fin (1 / L) = Fin (c * (1 / L))" if "\<bar>c\<bar> \<le> MAX_VALUE" for c
  proof -
    have "\<bar>c\<bar> * \<bar>1 / L\<bar> \<le> \<bar>c\<bar> * 1"
      using i1 by (intro mult_left_mono) simp_all
    then have "\<bar>c * (1 / L)\<bar> \<le> MAX_VALUE"
      using that by (simp add: abs_mult)
    then show ?thesis
      by (simp add: overflow_Fin del: times_divide_eq_right)
  qed
  have c1: "\<bar>cx\<bar> \<le> MAX_VALUE" "\<bar>sy\<bar> \<le> MAX_VALUE"
    unfolding cx_def sy_def using range_facts(2) abs_cos_le_one[of \<alpha>] abs_sin_le_one[of \<alpha>]
    by linarith+
  have "greatCirclePoint (Fin \<sigma>) (Fin \<delta>) a =
      [Fin (cx * (1 / L)), Fin (sy * (1 / L)), Fin (z * (1 / L))]"
    unfolding greatCirclePoint_def Let_def az Math_cos.simps Math_sin.simps
      cx_def[symmetric] sy_def[symmetric] w zz
      normalize_vector_def divideScalar_def multiplyScalar_def toArray_def len inv Vector3.sel
    using m[OF c1(1)] m[OF c1(2)] m[OF zM] by (simp only:)
  then show ?thesis
    unfolding Let_def L_def z_def w_def cx_def sy_def \<alpha>_def .
qed

text \<open>
  C7 (failing input). For strike 0 and dip 90 degrees, a vertical plane, the circle of the
  fault plane does not close. Its first point, at azimuth 0, is \<open>(1, 0, 0)\<close>. At azimuth
  360 the angle \<open>360 * DEG2RAD\<close> is \<open>2 * Math.PI\<close>, less than \<open>2 * \<pi>\<close>: its sine is not 0 but
  \<open>- 2.4e-16\<close>, and the slope \<open>tan(Math.PI / 2)\<close>, about \<open>1.6e16\<close>, turns it into the height
  \<open>- 4\<close>. After the normalization the last point has a negative second coordinate and a
  third coordinate below \<open>- 0.97\<close>.
\<close>

theorem C7_open_loop:
  "hd (generateNodalGreatCircles (Fin 0) (Fin 90) (Fin 0)) ! 0 = [Fin 1, Fin 0, Fin 0] \<and>
   (\<exists>px py pz.
      hd (generateNodalGreatCircles (Fin 0) (Fin 90) (Fin 0)) ! 360 = [Fin px, Fin py, Fin pz] \<and>
      py < 0 \<and> pz \<le> - 97 / 100)"
proof -
  let ?\<theta> = "PI_double / 2"
  have s: "degToRad (Fin 0) = Fin 0"
    using degToRad_Fin[of 0] MAX_VALUE_pos by simp
  have d: "degToRad (Fin 90) = Fin ?\<theta>"
    using degToRad_Fin[of 90] LIMIT_MAX LIMIT_big by simp
  have circle: "hd (generateNodalGreatCircles (Fin 0) (Fin 90) (Fin 0)) ! a =
      greatCirclePoint (Fin 0) (Fin ?\<theta>) a" if "a \<le> 360" for a
    using that by (simp add: generateNodalGreatCircles_def Let_def s d del: upt_Suc)
  have t: "\<bar>tan ?\<theta>\<bar> \<le> SLOPE_LIMIT"
    using tan_half_PI_double slope_facts(4) by simp
  have first: "greatCirclePoint (Fin 0) (Fin ?\<theta>) 0 = [Fin 1, Fin 0, Fin 0]"
    using greatCirclePoint_Fin[OF t, of 0 0] by simp
  define z where "z = tan ?\<theta> * sin (2 * PI_double)"
  define L where "L = sqrt (1 + z * z)"
  define q where "q = z * z"
  have z: "z \<le> - 3999 / 1000"
    unfolding z_def by (rule last_height(2))
  have last: "greatCirclePoint (Fin 0) (Fin ?\<theta>) 360 =
      [Fin (cos (2 * PI_double) * (1 / L)), Fin (sin (2 * PI_double) * (1 / L)), Fin (z * (1 / L))]"
    using greatCirclePoint_Fin[OF t, of 360 0] by (simp add: Let_def L_def z_def)
  have L: "0 < L"
    unfolding L_def by (simp add: add_pos_nonneg)
  have "3999 / 1000 * (3999 / 1000) \<le> (- z) * (- z)"
    using z by (intro mult_mono) simp_all
  then have "3999 / 1000 * (3999 / 1000) \<le> q"
    unfolding q_def by simp
  then have "1 + q \<le> q * (10000 / 9409)"
    by simp
  moreover have "(- z / (97 / 100))\<^sup>2 = q * (10000 / 9409)"
    unfolding q_def by (simp add: power2_eq_square)
  ultimately have "1 + z * z \<le> (- z / (97 / 100))\<^sup>2"
    unfolding q_def by simp
  moreover have "0 \<le> - z / (97 / 100)"
    using z by simp
  ultimately have "sqrt (1 + z * z) \<le> - z / (97 / 100)"
    by (intro real_le_lsqrt)
  then have "97 / 100 * L \<le> - z"
    unfolding L_def by (simp add: field_simps)
  then have pz: "z * (1 / L) \<le> - 97 / 100"
    using L by (simp add: field_simps)
  have py: "sin (2 * PI_double) * (1 / L) < 0"
    using sin_2_PI_double L by (intro mult_neg_pos) simp_all
  from first last py pz show ?thesis
    unfolding circle[of 0, simplified] circle[of 360, simplified] by blast
qed

end
